theory Spec2Isabelle
  imports Main "HOL-Library.Sublist"
begin

section \<open>The D1 export command: polling an export job and downloading its dump\<close>

text \<open>
  The development embeds \<^verbatim>\<open>exportRemotely\<close> and \<^verbatim>\<open>pollExport\<close> of wrangler's
  \<^verbatim>\<open>d1 export\<close> command. Both are asynchronous but strictly sequential (every
  effect is awaited before the next one starts), so they are modelled as state-passing
  functions on a record of everything they can observe or change.

  Strings are \<^typ>\<open>string\<close>, read as UTF-8 bytes. The only string operations of the source
  are concatenation, \<^verbatim>\<open>startsWith\<close> with an ASCII prefix and \<^verbatim>\<open>join\<close>, which agree on
  UTF-8 bytes and on JavaScript's UTF-16 code units.
\<close>

subsection \<open>Data\<close>

text \<open>A JavaScript \<^verbatim>\<open>Error\<close> (or \<^verbatim>\<open>UserError\<close>) carrying its message.\<close>

datatype error = Error string

text \<open>
  The outcome of an asynchronous call: the promise resolves, or it rejects. \<open>OutOfFuel\<close> is
  not an outcome of the program: it marks a run that was observed while still polling (see
  \<open>pollExport\<close> below).
\<close>

datatype 'a outcome = Return 'a | Throw error | OutOfFuel

text \<open>\<^verbatim>\<open>Database\<close>: only the \<^verbatim>\<open>uuid\<close> is read here.\<close>

record database =
  uuid :: string

text \<open>The \<^verbatim>\<open>dumpOptions\<close> object built by \<^verbatim>\<open>exportRemotely\<close>; optional fields are options.\<close>

record dump_options =
  noSchema :: "bool option"
  noData :: "bool option"
  tables :: "string list"

text \<open>
  The request handed to \<^verbatim>\<open>fetchResult\<close>. The body is kept as the object that
  \<^verbatim>\<open>JSON.stringify\<close> receives; \<^verbatim>\<open>JSON.stringify\<close> leaves out a property whose value is
  \<^verbatim>\<open>undefined\<close>, which is \<open>None\<close> here. \<open>body_dumpOptions\<close> and \<open>limit\<close> together are
  the object \<^verbatim>\<open>{ ...dumpOptions, limit: 790000 }\<close>.
\<close>

record request_body =
  outputFormat :: string
  body_dumpOptions :: dump_options
  limit :: nat
  currentBookmark :: "string option"

record request =
  resource :: string
  http_method :: string
  headers :: "(string \<times> string) list"
  body :: request_body

text \<open>
  \<^verbatim>\<open>PollingResponse | { success: false; error: string }\<close>. The job status is a tagged
  union in which \<^verbatim>\<open>complete\<close> alone carries \<^verbatim>\<open>result: { filename, signedUrl }\<close>.
\<close>

record artifact =
  filename :: string
  signedUrl :: string

datatype job_status = Active | Errored | Complete artifact

record polling_result =
  at_bookmark :: string
  messages :: "string list"
  errors :: "string list"
  status :: job_status

datatype response = Success polling_result | Failure string

text \<open>What \<^verbatim>\<open>await fetchResult(...)\<close> gives: it throws, or it yields a response.\<close>

type_synonym exchange = "request \<times> (error + response)"

text \<open>The response of undici's \<^verbatim>\<open>fetch\<close>; \<^verbatim>\<open>body\<close> is a stream or \<^verbatim>\<open>null\<close>.\<close>

record download =
  stream :: "string option"

text \<open>
  Everything the two functions observe or change: the remote side behind
  \<^verbatim>\<open>fetchResult\<close>, the status requests issued so far with what each one got back, the
  lines written with \<^verbatim>\<open>console.log\<close> and with \<^verbatim>\<open>logger.log\<close>, the URLs fetched with
  undici's \<^verbatim>\<open>fetch\<close>, and the file system.
\<close>

record 'sv world =
  server :: 'sv
  trace :: "exchange list"
  console :: "string list"
  logger :: "string list"
  fetched :: "string list"
  files :: "string \<rightharpoonup> string"

text \<open>
  The collaborators that are imported from elsewhere, taken as parameters:
  \<^verbatim>\<open>requireAuth\<close>, \<^verbatim>\<open>getDatabaseByNameOrBinding\<close>, \<^verbatim>\<open>fetchResult\<close> (a step of the remote
  side), undici's \<^verbatim>\<open>fetch\<close>, \<^verbatim>\<open>chalk.gray\<close>, and \<^verbatim>\<open>fs.writeFile\<close>: the fault with
  which it rejects for a path, if any, and what a rejected call has done to the file by
  then (\<open>None\<close>: the file could not be opened and is untouched; \<open>Some k\<close>: the file was
  opened, which empties it, and the first \<open>k\<close> bytes of the data were written).
\<close>

record ('cfg, 'sv) env =
  requireAuth :: "'cfg \<Rightarrow> error + string"
  getDatabaseByNameOrBinding :: "'cfg \<Rightarrow> string \<Rightarrow> string \<Rightarrow> error + database"
  fetchResult :: "'sv \<Rightarrow> request \<Rightarrow> (error + response) \<times> 'sv"
  fetch :: "string \<Rightarrow> error + download"
  chalk_gray :: "string \<Rightarrow> string"
  writeFile_fault :: "string \<Rightarrow> error option"
  writeFile_partial :: "string \<Rightarrow> nat option"

subsection \<open>Strings\<close>

text \<open>The cyclone emoji U+1F300 that starts most log lines, as UTF-8.\<close>

definition cyclone :: string where
  "cyclone = [CHR 0xF0, CHR 0x9F, CHR 0x8C, CHR 0x80]"

text \<open>\<^verbatim>\<open>String.prototype.startsWith\<close>.\<close>

definition startsWith :: "string \<Rightarrow> string \<Rightarrow> bool" where
  "startsWith s p = (take (length p) s = p)"

text \<open>\<^verbatim>\<open>Array.prototype.join\<close> on an array of strings.\<close>

fun join :: "string \<Rightarrow> string list \<Rightarrow> string" where
  "join sep [] = []"
| "join sep [x] = x"
| "join sep (x # y # ys) = x @ sep @ join sep (y # ys)"

text \<open>
  A counter in a template literal: the decimal digits of the number. The counter is a
  JavaScript number that starts at 0 and only ever grows by one; it is modelled as a
  natural number (the two agree below \<open>2 ^ 53\<close>).
\<close>

definition digit :: "nat \<Rightarrow> char" where
  "digit d = ''0123456789'' ! d"

fun toString :: "nat \<Rightarrow> string" where
  "toString n = (if n < 10 then [digit n] else toString (n div 10) @ [digit (n mod 10)])"

declare toString.simps [simp del]

subsection \<open>pollExport\<close>

text \<open>The argument of \<^verbatim>\<open>fetchResult\<close> in \<^verbatim>\<open>pollExport\<close>.\<close>

definition export_request :: "string \<Rightarrow> database \<Rightarrow> dump_options \<Rightarrow> string option \<Rightarrow> request" where
  "export_request accountId db dumpOptions bookmark =
     \<lparr> resource = ''/accounts/'' @ accountId @ ''/d1/database/'' @ uuid db @ ''/export'',
       http_method = ''POST'',
       headers = [(''x-d1-internal-env'', ''staging'')],
       body = \<lparr> outputFormat = ''polling'',
                body_dumpOptions = dumpOptions,
                limit = 790000,
                currentBookmark = bookmark \<rparr> \<rparr>"

text \<open>
  The \<^verbatim>\<open>forEach\<close> over \<^verbatim>\<open>response.result.messages\<close>: it returns the counter after the
  loop and the lines it logged, in order.
\<close>

fun report :: "string list \<Rightarrow> nat \<Rightarrow> nat \<times> string list" where
  "report [] num_parts_uploaded = (num_parts_uploaded, [])"
| "report (line # rest) num_parts_uploaded =
     (if startsWith line ''Uploaded part''
      then (let (n, out) = report rest (Suc num_parts_uploaded)
            in (n, (cyclone @ '' Uploaded part '' @ toString (Suc num_parts_uploaded)) # out))
      else (let (n, out) = report rest num_parts_uploaded
            in (n, (cyclone @ '' '' @ line) # out)))"

text \<open>
  \<^verbatim>\<open>pollExport\<close> calls itself for as long as the job is \<^verbatim>\<open>active\<close>, with no bound on the
  number of polls, so it need not return. The first argument bounds the number of status
  requests: a run that is still polling after that many gives \<open>OutOfFuel\<close> together with the
  world it has reached, so that a statement about every amount of fuel is a statement
  about every finite stretch of every run, including the runs that never end.
\<close>

fun pollExport ::
  "nat \<Rightarrow> ('cfg, 'sv) env \<Rightarrow> string \<Rightarrow> database \<Rightarrow> dump_options \<Rightarrow> string option \<Rightarrow> nat
     \<Rightarrow> 'sv world \<Rightarrow> polling_result outcome \<times> 'sv world" where
  "pollExport 0 env accountId db dumpOptions bookmark num_parts_uploaded w = (OutOfFuel, w)"
| "pollExport (Suc fuel) env accountId db dumpOptions bookmark num_parts_uploaded w =
     (let req = export_request accountId db dumpOptions bookmark;
          (resp, sv) = fetchResult env (server w) req;
          w1 = w\<lparr>server := sv, trace := trace w @ [(req, resp)]\<rparr>
      in case resp of
           Inl e \<Rightarrow> (Throw e, w1)
         | Inr (Failure msg) \<Rightarrow> (Throw (Error msg), w1)
         | Inr (Success result) \<Rightarrow>
             (let (n, out) = report (messages result) num_parts_uploaded;
                  w2 = w1\<lparr>console := console w1 @ out\<rparr>
              in case status result of
                   Complete _ \<Rightarrow> (Return result, w2)
                 | Errored \<Rightarrow> (Throw (Error (join [CHR 0x0A] (errors result))), w2)
                 | Active \<Rightarrow>
                     pollExport fuel env accountId db dumpOptions (Some (at_bookmark result)) n w2))"

subsection \<open>exportRemotely\<close>

text \<open>
  \<^verbatim>\<open>exportRemotely\<close> calls \<^verbatim>\<open>pollExport(accountId, db, dumpOptions, undefined)\<close>: no
  bookmark, and the counter at its default value 0. The guard after the poll reads the
  status of what \<^verbatim>\<open>pollExport\<close> returned; past it, the result is known to carry the
  artifact. \<^verbatim>\<open>contents.body || ""\<close> is the stream, or the empty string when the body is
  \<^verbatim>\<open>null\<close>. A successful \<^verbatim>\<open>fs.writeFile\<close> replaces the contents of the file at the
  path; when it rejects, the file is as the failed call left it: untouched, or emptied and
  holding the part of the data that was written before the fault.
\<close>

definition exportRemotely ::
  "nat \<Rightarrow> ('cfg, 'sv) env \<Rightarrow> 'cfg \<Rightarrow> string \<Rightarrow> string \<Rightarrow> string list \<Rightarrow> bool option \<Rightarrow> bool option
     \<Rightarrow> 'sv world \<Rightarrow> unit outcome \<times> 'sv world" where
  "exportRemotely fuel env config name output tabs no_schema no_data w =
     (case requireAuth env config of
        Inl e \<Rightarrow> (Throw e, w)
      | Inr accountId \<Rightarrow>
          (case getDatabaseByNameOrBinding env config accountId name of
             Inl e \<Rightarrow> (Throw e, w)
           | Inr db \<Rightarrow>
               (let w1 = w\<lparr>logger := logger w @
                            [cyclone @ '' Executing on remote database '' @ name @ '' ('' @ uuid db @ ''):'',
                             cyclone @ '' Creating export...'']\<rparr>;
                    dumpOptions = \<lparr>noSchema = no_schema, noData = no_data, tables = tabs\<rparr>
                in case pollExport fuel env accountId db dumpOptions None 0 w1 of
                     (Throw e, w2) \<Rightarrow> (Throw e, w2)
                   | (OutOfFuel, w2) \<Rightarrow> (OutOfFuel, w2)
                   | (Return result, w2) \<Rightarrow>
                       (case status result of
                          Active \<Rightarrow> (Throw (Error ''Error: D1 reset before export completed!''), w2)
                        | Errored \<Rightarrow> (Throw (Error ''Error: D1 reset before export completed!''), w2)
                        | Complete art \<Rightarrow>
                            (let w3 = w2\<lparr>logger := logger w2 @
                                         [cyclone @ '' Downloading SQL to '' @ output @ ''...'',
                                          chalk_gray env (''If this download fails, you can retry downloading the following URL manually. It is valid for 1 hour: '' @ signedUrl art)]\<rparr>;
                                 w4 = w3\<lparr>fetched := fetched w3 @ [signedUrl art]\<rparr>
                             in case fetch env (signedUrl art) of
                                  Inl e \<Rightarrow> (Throw e, w4)
                                | Inr contents \<Rightarrow>
                                    (let data = (case stream contents of Some s \<Rightarrow> s | None \<Rightarrow> '''')
                                     in case writeFile_fault env output of
                                          Some e \<Rightarrow>
                                            (Throw e,
                                             w4\<lparr>files :=
                                                  (case writeFile_partial env output of
                                                     None \<Rightarrow> files w4
                                                   | Some k \<Rightarrow> (files w4)(output \<mapsto> take k data))\<rparr>)
                                        | None \<Rightarrow>
                                            (Return (),
                                             w4\<lparr>files := (files w4)(output \<mapsto> data),
                                                logger := logger w4 @ [''Done!'']\<rparr>)))))))"

subsection \<open>Reading a run\<close>

text \<open>
  The status requests issued, and the lines logged with \<^verbatim>\<open>console.log\<close>, between an
  earlier world and a later one.
\<close>

definition exchanges_since :: "'sv world \<Rightarrow> 'sv world \<Rightarrow> exchange list" where
  "exchanges_since w w' = drop (length (trace w)) (trace w')"

definition logged_since :: "'sv world \<Rightarrow> 'sv world \<Rightarrow> string list" where
  "logged_since w w' = drop (length (console w)) (console w')"

text \<open>The progress lines of the responses of a run, in the order in which they arrived.\<close>

fun lines_of :: "error + response \<Rightarrow> string list" where
  "lines_of (Inr (Success result)) = messages result"
| "lines_of _ = []"

definition progress_lines :: "exchange list \<Rightarrow> string list" where
  "progress_lines tr = concat (map (\<lambda>x. lines_of (snd x)) tr)"

text \<open>
  The exchanges of one call of \<^verbatim>\<open>pollExport\<close> read back against its code: every request
  is the one \<^verbatim>\<open>pollExport\<close> builds for the bookmark it holds, an \<^verbatim>\<open>active\<close> response
  hands its bookmark to the next request, and any other response is the last one and
  decides the outcome. A run cut short by the bound on the number of requests ends
  with \<open>OutOfFuel\<close>.
\<close>

fun follows ::
  "string \<Rightarrow> database \<Rightarrow> dump_options \<Rightarrow> string option \<Rightarrow> exchange list
     \<Rightarrow> polling_result outcome \<Rightarrow> bool" where
  "follows a db opts b [] out = (out = OutOfFuel)"
| "follows a db opts b (x # rest) out =
     (fst x = export_request a db opts b \<and>
      (case snd x of
         Inl e \<Rightarrow> rest = [] \<and> out = Throw e
       | Inr (Failure msg) \<Rightarrow> rest = [] \<and> out = Throw (Error msg)
       | Inr (Success r) \<Rightarrow>
           (case status r of
              Active \<Rightarrow> follows a db opts (Some (at_bookmark r)) rest out
            | Errored \<Rightarrow> rest = [] \<and> out = Throw (Error (join [CHR 0x0A] (errors r)))
            | Complete art \<Rightarrow> rest = [] \<and> out = Return r)))"

text \<open>
  What the remote side does, whoever calls it: \<open>answers env sv xs sv'\<close> says that
  \<^verbatim>\<open>fetchResult\<close>, applied from the state \<open>sv\<close> to the requests of \<open>xs\<close> one after the other
  and to nothing else, gives the responses of \<open>xs\<close> and leaves the remote side in \<open>sv'\<close>.
\<close>

fun answers :: "('cfg, 'sv) env \<Rightarrow> 'sv \<Rightarrow> exchange list \<Rightarrow> 'sv \<Rightarrow> bool" where
  "answers env sv [] sv' = (sv' = sv)"
| "answers env sv (x # xs) sv' =
     (fst (fetchResult env sv (fst x)) = snd x \<and>
      answers env (snd (fetchResult env sv (fst x))) xs sv')"

text \<open>
  A transport that keeps its own record: \<^verbatim>\<open>fetchResult\<close> of \<open>recording env\<close> answers as
  that of \<open>env\<close> does and appends the request it was handed, with the response it gave, to a
  list held on the remote side, out of the reach of \<^verbatim>\<open>pollExport\<close>.
\<close>

definition recording :: "('cfg, 'sv) env \<Rightarrow> ('cfg, 'sv \<times> exchange list) env" where
  "recording env =
     \<lparr> requireAuth = requireAuth env,
       getDatabaseByNameOrBinding = getDatabaseByNameOrBinding env,
       fetchResult = (\<lambda>s req. (fst (fetchResult env (fst s) req),
                               (snd (fetchResult env (fst s) req),
                                snd s @ [(req, fst (fetchResult env (fst s) req))]))),
       fetch = fetch env,
       chalk_gray = chalk_gray env,
       writeFile_fault = writeFile_fault env,
       writeFile_partial = writeFile_partial env \<rparr>"

subsection \<open>Example runs\<close>

text \<open>
  A scripted remote side, as a test double for \<^verbatim>\<open>fetchResult\<close>: it answers the requests
  with the responses of a list, in order, and throws when the list is used up.
\<close>

definition scripted :: "response list \<Rightarrow> request \<Rightarrow> (error + response) \<times> response list" where
  "scripted script req =
     (case script of
        [] \<Rightarrow> (Inl (Error ''no response scripted''), [])
      | r # rest \<Rightarrow> (Inr r, rest))"

text \<open>
  Collaborators that always succeed; the argument is the body of the download
  (\<open>None\<close> for \<^verbatim>\<open>null\<close>). The world starts with a file already at the output path.
\<close>

definition example_env :: "string option \<Rightarrow> (unit, response list) env" where
  "example_env downloaded =
     \<lparr> requireAuth = (\<lambda>_. Inr ''account-1''),
       getDatabaseByNameOrBinding = (\<lambda>_ _ _. Inr \<lparr>uuid = ''db-uuid''\<rparr>),
       fetchResult = scripted,
       fetch = (\<lambda>_. Inr \<lparr>stream = downloaded\<rparr>),
       chalk_gray = (\<lambda>s. s),
       writeFile_fault = (\<lambda>_. None),
       writeFile_partial = (\<lambda>_. None) \<rparr>"

definition example_world :: "response list \<Rightarrow> response list world" where
  "example_world script =
     \<lparr> server = script, trace = [], console = [], logger = [], fetched = [],
       files = [''out.sql'' \<mapsto> ''old''] \<rparr>"

text \<open>Three scripts: a job that completes, a job that fails, and a request rejected at the second
  poll, with one more response that no request should ever fetch.\<close>

definition example_completing :: "response list" where
  "example_completing =
     [Success \<lparr>at_bookmark = ''b1'',
               messages = [''Uploaded part 7'', ''Fetching schema'', ''Uploaded part 3''],
               errors = [], status = Active\<rparr>,
      Success \<lparr>at_bookmark = ''b2'', messages = [''Uploaded part 9''], errors = [],
               status = Active\<rparr>,
      Success \<lparr>at_bookmark = ''b3'', messages = [], errors = [],
               status = Complete \<lparr>filename = ''dump.sql'', signedUrl = ''https://x/y''\<rparr>\<rparr>]"

definition example_failing :: "response list" where
  "example_failing =
     [Success \<lparr>at_bookmark = ''b1'', messages = [''Uploaded part 1''], errors = [],
               status = Active\<rparr>,
      Success \<lparr>at_bookmark = ''b2'', messages = [], errors = [''disk full'', ''quota exceeded''],
               status = Errored\<rparr>]"

definition example_rate_limited :: "response list" where
  "example_rate_limited =
     [Success \<lparr>at_bookmark = ''b1'', messages = [''Uploaded part 1''], errors = [],
               status = Active\<rparr>,
      Failure ''rate limited'',
      Failure ''never asked'']"

text \<open>The same world on a remote side that keeps its own record, empty at the start.\<close>

definition example_recorded_world :: "response list \<Rightarrow> (response list \<times> exchange list) world" where
  "example_recorded_world script =
     \<lparr> server = (script, []), trace = [], console = [], logger = [], fetched = [],
       files = [''out.sql'' \<mapsto> ''old''] \<rparr>"

text \<open>The requests of the examples, and their active responses.\<close>

definition example_request :: "string option \<Rightarrow> request" where
  "example_request b =
     export_request ''account-1'' \<lparr>uuid = ''db-uuid''\<rparr>
       \<lparr>noSchema = Some True, noData = None, tables = [''users'']\<rparr> b"

text \<open>An export and a poll against a script, with room for three status requests.\<close>

definition example_export ::
  "response list \<Rightarrow> string option \<Rightarrow> unit outcome \<times> response list world" where
  "example_export script downloaded =
     exportRemotely (Suc (Suc (Suc 0))) (example_env downloaded) () ''db'' ''out.sql''
       [''users''] (Some True) None (example_world script)"

definition example_poll :: "response list \<Rightarrow> polling_result outcome \<times> response list world" where
  "example_poll script =
     pollExport (Suc (Suc (Suc 0))) (example_env None) ''account-1'' \<lparr>uuid = ''db-uuid''\<rparr>
       \<lparr>noSchema = Some True, noData = None, tables = [''users'']\<rparr> None 0 (example_world script)"

definition example_recorded_export ::
  "response list \<Rightarrow> unit outcome \<times> (response list \<times> exchange list) world" where
  "example_recorded_export script =
     exportRemotely (Suc (Suc (Suc 0))) (recording (example_env None)) () ''db'' ''out.sql''
       [''users''] (Some True) None (example_recorded_world script)"

text \<open>
  The exchanges of the job that completes and of the request rejected at the second poll,
  written out: the requests with their bookmarks, and the responses of the scripts.
\<close>

definition example_exchanges :: "exchange list" where
  "example_exchanges =
     [(example_request None, Inr (example_completing ! 0)),
      (example_request (Some ''b1''), Inr (example_completing ! 1)),
      (example_request (Some ''b2''), Inr (example_completing ! 2))]"

definition example_rate_limited_exchanges :: "exchange list" where
  "example_rate_limited_exchanges =
     [(example_request None, Inr (example_rate_limited ! 0)),
      (example_request (Some ''b1''), Inr (example_rate_limited ! 1))]"

section \<open>Properties\<close>

subsection \<open>The progress lines of one response\<close>

lemma report_Nil [simp]: "fst (report [] n) = n" "snd (report [] n) = []"
  by simp_all

lemma snd_report_Cons:
  "snd (report (l # ls) n) =
     (if startsWith l ''Uploaded part''
      then (cyclone @ '' Uploaded part '' @ toString (Suc n)) # snd (report ls (Suc n))
      else (cyclone @ '' '' @ l) # snd (report ls n))"
  by (simp add: split_def Let_def)

lemma fst_report_Cons:
  "fst (report (l # ls) n) =
     (if startsWith l ''Uploaded part'' then fst (report ls (Suc n)) else fst (report ls n))"
  by (simp add: split_def Let_def)

lemma fst_report: "fst (report ls n) = n + length (filter (\<lambda>l. startsWith l ''Uploaded part'') ls)"
  by (induction ls arbitrary: n) (simp_all add: fst_report_Cons del: report.simps)


lemma snd_report_append:
  "snd (report (xs @ ys) n) = snd (report xs n) @ snd (report ys (fst (report xs n)))"
  by (induction xs arbitrary: n) (simp_all add: snd_report_Cons fst_report_Cons del: report.simps)


subsection \<open>The shape of a run of pollExport\<close>

lemma progress_lines_Cons [simp]: "progress_lines (x # tr) = lines_of (snd x) @ progress_lines tr"
  by (simp add: progress_lines_def)

lemma progress_lines_Nil [simp]: "progress_lines [] = []"
  by (simp add: progress_lines_def)

lemma pollExport_run:
  "pollExport fuel env a db opts b n w = (out, w') \<Longrightarrow>
   \<exists>tr. w' = w\<lparr>server := server w', trace := trace w @ tr,
                 console := console w @ snd (report (progress_lines tr) n)\<rparr>
        \<and> length tr \<le> fuel \<and> follows a db opts b tr out
        \<and> answers env (server w) tr (server w')"
proof (induction fuel arbitrary: b n w)
  case 0
  then show ?case by (intro exI [of _ "[]"]) simp
next
  case (Suc fuel)
  obtain resp sv where fr: "fetchResult env (server w) (export_request a db opts b) = (resp, sv)"
    by (cases "fetchResult env (server w) (export_request a db opts b)")
  let ?x = "(export_request a db opts b, resp)"
  let ?w1 = "w\<lparr>server := sv, trace := trace w @ [?x]\<rparr>"
  show ?case
  proof (cases resp)
    case (Inl e)
    with Suc.prems fr show ?thesis
      by (intro exI [of _ "[?x]"]) auto
  next
    case (Inr rp)
    show ?thesis
    proof (cases rp)
      case (Failure msg)
      with Suc.prems fr Inr show ?thesis
        by (intro exI [of _ "[?x]"]) auto
    next
      case (Success r)
      let ?w2 = "?w1\<lparr>console := console w @ snd (report (messages r) n)\<rparr>"
      show ?thesis
      proof (cases "status r")
        case Active
        with Suc.prems fr Inr Success
        have "pollExport fuel env a db opts (Some (at_bookmark r)) (fst (report (messages r) n)) ?w2 = (out, w')"
          by (simp add: split_def Let_def)
        from Suc.IH [OF this] obtain tr where
          tr: "w' = ?w2\<lparr>server := server w', trace := trace ?w2 @ tr,
                 console := console ?w2 @ snd (report (progress_lines tr) (fst (report (messages r) n)))\<rparr>"
              "length tr \<le> fuel" "follows a db opts (Some (at_bookmark r)) tr out"
              "answers env (server ?w2) tr (server w')"
          by blast
        show ?thesis
          using tr Inr Success Active fr
          by (intro exI [of _ "?x # tr"]) (simp add: snd_report_append)
      next
        case Errored
        with Suc.prems fr Inr Success show ?thesis
          by (intro exI [of _ "[?x]"]) (auto simp: split_def)
      next
        case (Complete art)
        with Suc.prems fr Inr Success show ?thesis
          by (intro exI [of _ "[?x]"]) (auto simp: split_def)
      qed
    qed
  qed
qed


lemma pollExport_frame:
  assumes "pollExport fuel env a db opts b n w = (out, w')"
  shows "trace w' = trace w @ exchanges_since w w'"
    and "follows a db opts b (exchanges_since w w') out"
    and "length (exchanges_since w w') \<le> fuel"
    and "console w' = console w @ logged_since w w'"
    and "logged_since w w' = snd (report (progress_lines (exchanges_since w w')) n)"
    and "logger w' = logger w" and "fetched w' = fetched w" and "files w' = files w"
    and "answers env (server w) (exchanges_since w w') (server w')"
proof -
  from pollExport_run [OF assms] obtain tr where
    w': "w' = w\<lparr>server := server w', trace := trace w @ tr,
                 console := console w @ snd (report (progress_lines tr) n)\<rparr>"
    and tr: "length tr \<le> fuel" "follows a db opts b tr out"
            "answers env (server w) tr (server w')"
    by blast
  have t: "trace w' = trace w @ tr"
    by (subst w') simp
  have c: "console w' = console w @ snd (report (progress_lines tr) n)"
    by (subst w') simp
  have e: "exchanges_since w w' = tr"
    by (simp add: exchanges_since_def t)
  have l: "logged_since w w' = snd (report (progress_lines tr) n)"
    by (simp add: logged_since_def c)
  show "trace w' = trace w @ exchanges_since w w'" by (simp add: e t)
  show "follows a db opts b (exchanges_since w w') out" by (simp add: e tr)
  show "length (exchanges_since w w') \<le> fuel" by (simp add: e tr)
  show "console w' = console w @ logged_since w w'" by (simp add: l c)
  show "logged_since w w' = snd (report (progress_lines (exchanges_since w w')) n)" by (simp add: l e)
  show "logger w' = logger w" by (subst w') simp
  show "fetched w' = fetched w" by (subst w') simp
  show "files w' = files w" by (subst w') simp
  show "answers env (server w) (exchanges_since w w') (server w')" by (simp add: e tr)
qed




lemma follows_terminal:
  "follows a db opts b tr out \<Longrightarrow> i < length tr \<Longrightarrow>
   (case snd (tr ! i) of
      Inl e \<Rightarrow> Suc i = length tr \<and> out = Throw e
    | Inr (Failure msg) \<Rightarrow> Suc i = length tr \<and> out = Throw (Error msg)
    | Inr (Success r) \<Rightarrow>
        (case status r of
           Active \<Rightarrow> True
         | Errored \<Rightarrow> Suc i = length tr \<and> out = Throw (Error (join [CHR 0x0A] (errors r)))
         | Complete art \<Rightarrow> Suc i = length tr \<and> out = Return r))"
proof (induction tr arbitrary: b i)
  case Nil
  then show ?case by simp
next
  case (Cons x rest)
  show ?case
  proof (cases i)
    case 0
    with Cons.prems(1) show ?thesis
      by (auto split: sum.splits response.splits job_status.splits)
  next
    case (Suc j)
    with Cons.prems have j: "j < length rest" and ne: "rest \<noteq> []" by auto
    from Cons.prems(1) ne obtain r :: polling_result
      where "follows a db opts (Some (at_bookmark r)) rest out"
      by (auto split: sum.splits response.splits job_status.splits)
    from Cons.IH [OF this j] Suc show ?thesis
      by (auto split: sum.splits response.splits job_status.splits)
  qed
qed

lemma follows_Return:
  "follows a db opts b tr (Return r) \<Longrightarrow>
   tr \<noteq> [] \<and> snd (last tr) = Inr (Success r) \<and> (\<exists>art. status r = Complete art)"
proof (induction tr arbitrary: b)
  case Nil
  then show ?case by simp
next
  case (Cons x rest)
  then show ?case
    by (cases rest) (auto split: sum.splits response.splits job_status.splits)
qed

text \<open>
  A run that has ended is not changed by a larger bound, and a run that has not ended has
  used its whole bound on \<^verbatim>\<open>active\<close> responses.
\<close>

lemma pollExport_more_fuel:
  "pollExport fuel env a db opts b n w = (out, w') \<Longrightarrow> out \<noteq> OutOfFuel \<Longrightarrow>
   pollExport (fuel + extra) env a db opts b n w = (out, w')"
proof (induction fuel arbitrary: b n w)
  case 0
  then show ?case by simp
next
  case (Suc fuel)
  then show ?case
    by (auto simp: Let_def split: prod.splits sum.splits response.splits job_status.splits)
qed

lemma follows_OutOfFuel:
  "follows a db opts b tr OutOfFuel \<Longrightarrow> x \<in> set tr \<Longrightarrow>
   \<exists>r. snd x = Inr (Success r) \<and> status r = Active"
proof (induction tr arbitrary: b)
  case Nil
  then show ?case by simp
next
  case (Cons y rest)
  then show ?case
    by (auto split: sum.splits response.splits job_status.splits)
qed

lemma pollExport_OutOfFuel:
  "pollExport fuel env a db opts b n w = (OutOfFuel, w') \<Longrightarrow>
   length (trace w') = length (trace w) + fuel"
proof (induction fuel arbitrary: b n w)
  case 0
  then show ?case by simp
next
  case (Suc fuel)
  obtain resp sv where fr: "fetchResult env (server w) (export_request a db opts b) = (resp, sv)"
    by (cases "fetchResult env (server w) (export_request a db opts b)")
  with Suc.prems obtain r where r: "resp = Inr (Success r)" "status r = Active"
    by (auto simp: Let_def split_def split: sum.splits response.splits job_status.splits)
  let ?w2 = "w\<lparr>server := sv, trace := trace w @ [(export_request a db opts b, resp)],
                console := console w @ snd (report (messages r) n)\<rparr>"
  from Suc.prems fr r
  have "pollExport fuel env a db opts (Some (at_bookmark r)) (fst (report (messages r) n)) ?w2 =
          (OutOfFuel, w')"
    by (simp add: Let_def split_def)
  from Suc.IH [OF this] show ?case by simp
qed

lemma pollExport_still_polling:
  assumes "pollExport fuel env a db opts b n w = (OutOfFuel, w')"
  shows "length (exchanges_since w w') = fuel"
    and "x \<in> set (exchanges_since w w') \<Longrightarrow> \<exists>r. snd x = Inr (Success r) \<and> status r = Active"
proof -
  from pollExport_OutOfFuel [OF assms] show "length (exchanges_since w w') = fuel"
    by (simp add: exchanges_since_def)
  from follows_OutOfFuel [OF pollExport_frame(2) [OF assms]]
  show "x \<in> set (exchanges_since w w') \<Longrightarrow> \<exists>r. snd x = Inr (Success r) \<and> status r = Active" .
qed

text \<open>
  The converse: what the remote side answers to the requests of the protocol decides what
  \<^verbatim>\<open>pollExport\<close> does, to the last field of the world.
\<close>

lemma pollExport_complete:
  "answers env (server w) xs sv \<Longrightarrow> follows a db opts b xs out \<Longrightarrow> out \<noteq> OutOfFuel \<Longrightarrow>
   length xs \<le> fuel \<Longrightarrow>
   pollExport fuel env a db opts b n w =
     (out, w\<lparr>server := sv, trace := trace w @ xs,
              console := console w @ snd (report (progress_lines xs) n)\<rparr>)"
proof (induction xs arbitrary: fuel b n w)
  case Nil
  then show ?case by simp
next
  case (Cons x rest)
  from Cons.prems(4) obtain k where fuel: "fuel = Suc k" and k: "length rest \<le> k"
    by (cases fuel) auto
  let ?req = "export_request a db opts b"
  from Cons.prems(2) have req: "fst x = ?req" by simp
  obtain resp0 sv0 where fr0: "fetchResult env (server w) ?req = (resp0, sv0)"
    by (cases "fetchResult env (server w) ?req")
  with Cons.prems(1) req have resp: "resp0 = snd x" and rest: "answers env sv0 rest sv"
    by simp_all
  from fr0 resp have fr: "fetchResult env (server w) ?req = (snd x, sv0)"
    by simp
  have x: "x = (?req, snd x)"
    using req by (simp add: prod_eq_iff)
  let ?w1 = "w\<lparr>server := sv0, trace := trace w @ [x]\<rparr>"
  show ?case
  proof (cases "snd x")
    case (Inl e)
    with Cons.prems(2) have "rest = []" "out = Throw e" by simp_all
    with rest fr Inl x fuel show ?thesis by simp
  next
    case (Inr rp)
    show ?thesis
    proof (cases rp)
      case (Failure msg)
      with Cons.prems(2) Inr have "rest = []" "out = Throw (Error msg)" by simp_all
      with rest fr Inr Failure x fuel show ?thesis by simp
    next
      case (Success r)
      show ?thesis
      proof (cases "status r")
        case Active
        let ?n = "fst (report (messages r) n)"
        let ?w2 = "?w1\<lparr>console := console w @ snd (report (messages r) n)\<rparr>"
        from Cons.prems(2) Inr Success Active
        have f: "follows a db opts (Some (at_bookmark r)) rest out" by simp
        have s: "answers env (server ?w2) rest sv"
          using rest by simp
        from Cons.IH [OF s f Cons.prems(3) k, of ?n]
        have "pollExport k env a db opts (Some (at_bookmark r)) ?n ?w2 =
                (out, ?w2\<lparr>server := sv, trace := trace ?w2 @ rest,
                         console := console ?w2 @ snd (report (progress_lines rest) ?n)\<rparr>)" .
        moreover have "pollExport fuel env a db opts b n w =
                pollExport k env a db opts (Some (at_bookmark r)) ?n ?w2"
          using fr Inr Success Active x fuel
          by (simp add: split_def Let_def)
        ultimately show ?thesis
          using Inr Success by (simp add: snd_report_append)
      next
        case Errored
        with Cons.prems(2) Inr Success
        have "rest = []" "out = Throw (Error (join [CHR 0x0A] (errors r)))" by simp_all
        with rest fr Inr Success Errored x fuel show ?thesis
          by (simp add: split_def Let_def)
      next
        case (Complete art)
        with Cons.prems(2) Inr Success have "rest = []" "out = Return r" by simp_all
        with rest fr Inr Success Complete x fuel show ?thesis
          by (simp add: split_def Let_def)
      qed
    qed
  qed
qed

text \<open>A transport that keeps its own record ends with the exchanges it answered.\<close>

lemma answers_append:
  "answers env sv (xs @ ys) sv' =
     (\<exists>mid. answers env sv xs mid \<and> answers env mid ys sv')"
  by (induction xs arbitrary: sv) auto


subsection \<open>From pollExport to exportRemotely\<close>

lemma exchanges_since_same [simp]: "exchanges_since w w = []"
  by (simp add: exchanges_since_def)



lemma pollExport_Return:
  "pollExport fuel env a db opts b n w = (Return r, w') \<Longrightarrow> \<exists>art. status r = Complete art"
  using follows_Return pollExport_frame(2) by blast

lemma exportRemotely_cases:
  assumes "exportRemotely fuel env config name output tabs ns nd w = (out, w')"
  obtains
    (early) e where "out = Throw e" "w' = w"
      "requireAuth env config = Inl e \<or>
       (\<exists>a. requireAuth env config = Inr a \<and> getDatabaseByNameOrBinding env config a name = Inl e)"
  | (polling) a db w1 w2 pout where
      "requireAuth env config = Inr a" "getDatabaseByNameOrBinding env config a name = Inr db"
      "trace w1 = trace w" "console w1 = console w" "fetched w1 = fetched w" "files w1 = files w"
      "pollExport fuel env a db \<lparr>noSchema = ns, noData = nd, tables = tabs\<rparr> None 0 w1 = (pout, w2)"
      "trace w' = trace w2" "console w' = console w2"
      "case pout of
         OutOfFuel \<Rightarrow> out = OutOfFuel \<and> w' = w2
       | Throw e \<Rightarrow> out = Throw e \<and> w' = w2
       | Return r \<Rightarrow>
           (\<exists>art. status r = Complete art \<and> fetched w' = fetched w2 @ [signedUrl art] \<and>
              (case fetch env (signedUrl art) of
                 Inl e \<Rightarrow> out = Throw e \<and> files w' = files w2
               | Inr contents \<Rightarrow>
                   (case writeFile_fault env output of
                      Some e \<Rightarrow> out = Throw e
                    | None \<Rightarrow> out = Return () \<and>
                        files w' = (files w2)(output \<mapsto>
                          (case stream contents of Some s \<Rightarrow> s | None \<Rightarrow> '''')))))"
      "server w1 = server w" "server w' = server w2"
proof (cases "requireAuth env config")
  case (Inl e)
  with assms have "out = Throw e" "w' = w" by (simp_all add: exportRemotely_def)
  with Inl show ?thesis by (intro early) auto
next
  case a: (Inr a)
  show ?thesis
  proof (cases "getDatabaseByNameOrBinding env config a name")
    case (Inl e)
    with assms a have "out = Throw e" "w' = w" by (simp_all add: exportRemotely_def)
    with Inl a show ?thesis by (intro early) auto
  next
    case db: (Inr db)
    let ?w1 = "w\<lparr>logger := logger w @
                  [cyclone @ '' Executing on remote database '' @ name @ '' ('' @ uuid db @ ''):'',
                   cyclone @ '' Creating export...'']\<rparr>"
    let ?opts = "\<lparr>noSchema = ns, noData = nd, tables = tabs\<rparr>"
    obtain pout w2 where p: "pollExport fuel env a db ?opts None 0 ?w1 = (pout, w2)"
      by (cases "pollExport fuel env a db ?opts None 0 ?w1")
    have fr: "fetched w2 = fetched w" "files w2 = files w"
      using pollExport_frame(7,8) [OF p] by simp_all
    show ?thesis
    proof (rule polling [OF a db _ _ _ _ p])
      show "trace ?w1 = trace w" "console ?w1 = console w" "fetched ?w1 = fetched w" "files ?w1 = files w"
        by simp_all
    next
      show "trace w' = trace w2"
        using assms a db p pollExport_Return [of fuel env a db ?opts None 0 ?w1 _ w2]
        by (auto simp: exportRemotely_def Let_def
                 split: outcome.splits job_status.splits sum.splits option.splits)
    next
      show "console w' = console w2"
        using assms a db p pollExport_Return [of fuel env a db ?opts None 0 ?w1 _ w2]
        by (auto simp: exportRemotely_def Let_def
                 split: outcome.splits job_status.splits sum.splits option.splits)
    next
      show "server ?w1 = server w"
        by simp
    next
      show "server w' = server w2"
        using assms a db p pollExport_Return [of fuel env a db ?opts None 0 ?w1 _ w2]
        by (auto simp: exportRemotely_def Let_def
                 split: outcome.splits job_status.splits sum.splits option.splits)
    next
      show "case pout of
         OutOfFuel \<Rightarrow> out = OutOfFuel \<and> w' = w2
       | Throw e \<Rightarrow> out = Throw e \<and> w' = w2
       | Return r \<Rightarrow>
           (\<exists>art. status r = Complete art \<and> fetched w' = fetched w2 @ [signedUrl art] \<and>
              (case fetch env (signedUrl art) of
                 Inl e \<Rightarrow> out = Throw e \<and> files w' = files w2
               | Inr contents \<Rightarrow>
                   (case writeFile_fault env output of
                      Some e \<Rightarrow> out = Throw e
                    | None \<Rightarrow> out = Return () \<and>
                        files w' = (files w2)(output \<mapsto>
                          (case stream contents of Some s \<Rightarrow> s | None \<Rightarrow> '''')))))"
        using assms a db p pollExport_Return [of fuel env a db ?opts None 0 ?w1 _ w2]
        by (auto simp: exportRemotely_def Let_def
                 split: outcome.splits job_status.splits sum.splits option.splits)
    qed
  qed
qed


subsection \<open>Joined error messages\<close>


lemma exportRemotely_more_fuel:
  assumes "exportRemotely fuel env config name output tabs ns nd w = (out, w')" and "out \<noteq> OutOfFuel"
  shows "exportRemotely (fuel + extra) env config name output tabs ns nd w = (out, w')"
proof (cases "requireAuth env config")
  case (Inl e)
  with assms show ?thesis by (simp add: exportRemotely_def)
next
  case a: (Inr a)
  show ?thesis
  proof (cases "getDatabaseByNameOrBinding env config a name")
    case (Inl e)
    with assms a show ?thesis by (simp add: exportRemotely_def)
  next
    case db: (Inr db)
    let ?w1 = "w\<lparr>logger := logger w @
                  [cyclone @ '' Executing on remote database '' @ name @ '' ('' @ uuid db @ ''):'',
                   cyclone @ '' Creating export...'']\<rparr>"
    let ?opts = "\<lparr>noSchema = ns, noData = nd, tables = tabs\<rparr>"
    obtain pout w2 where p: "pollExport fuel env a db ?opts None 0 ?w1 = (pout, w2)"
      by (cases "pollExport fuel env a db ?opts None 0 ?w1")
    have "pout \<noteq> OutOfFuel"
      using assms a db p by (auto simp: exportRemotely_def Let_def)
    from pollExport_more_fuel [OF p this]
    have "pollExport (fuel + extra) env a db ?opts None 0 ?w1 = (pout, w2)" .
    with assms(1) a db p show ?thesis
      by (simp add: exportRemotely_def Let_def)
  qed
qed

subsection \<open>Evaluating the example runs\<close>

lemmas example_defs =
  example_export_def example_poll_def exportRemotely_def example_env_def example_world_def
  example_completing_def example_failing_def example_rate_limited_def
  example_recorded_export_def example_recorded_world_def recording_def
  scripted_def export_request_def startsWith_def exchanges_since_def logged_since_def
  progress_lines_def Let_def

section \<open>The claims\<close>

text \<open>
  In the statements below, \<open>exchanges_since w w'\<close> is the list of status requests issued
  between the worlds \<open>w\<close> and \<open>w'\<close>, each with what came back, oldest first. By
  \<open>exportRemotely_answers\<close> and \<open>pollExport_frame\<close> these are the exchanges of the remote
  side itself: \<^verbatim>\<open>fetchResult\<close> was applied to these requests and no others, and on a
  transport that keeps its own record the record is this list (\<open>answers_recording\<close>). The
  statements hold for every bound \<open>fuel\<close> on the number of status requests, so they hold of
  every finite stretch of an export, whether or not it ever ends.
\<close>

subsection \<open>C1: bookmark threading\<close>



subsection \<open>C2: terminal once\<close>

text \<open>
  C2. Once a response with status \<^verbatim>\<open>error\<close> or \<^verbatim>\<open>complete\<close> has been processed, no
  further status request is issued for that export. Let \<open>xs\<close> be what the remote side
  answers, from its state at the start, to the requests of the export one after the other,
  and let the response at position \<open>i\<close> be an \<^verbatim>\<open>error\<close> or a \<^verbatim>\<open>complete\<close> one. Then that
  response is the last of \<open>xs\<close>, and however many more requests the export is allowed, it
  leaves the remote side in the state right after that response, and the requests it has
  made are exactly those of \<open>xs\<close>.
\<close>

theorem terminal_once:
  assumes "exportRemotely fuel env config name output tabs ns nd w = (out, w')"
      and "requireAuth env config = Inr a"
      and "getDatabaseByNameOrBinding env config a name = Inr db"
      and "answers env (server w) xs sv"
      and "follows a db \<lparr>noSchema = ns, noData = nd, tables = tabs\<rparr> None xs pout"
      and "i < length xs"
      and "snd (xs ! i) = Inr (Success r)"
      and "status r = Errored \<or> (\<exists>art. status r = Complete art)"
      and "length xs \<le> fuel"
  shows "Suc i = length xs \<and> server w' = sv \<and> trace w' = trace w @ xs \<and>
         exchanges_since w w' = xs \<and> out \<noteq> OutOfFuel"
  using assms(1)
proof (cases rule: exportRemotely_cases)
  case (early e)
  with assms(2,3) show ?thesis by auto
next
  case (polling a' db' w1 w2 pout')
  from polling(1,2) assms(2,3) have same: "a' = a" "db' = db" by simp_all
  from follows_terminal [OF assms(5,6)] assms(7,8)
  have l: "Suc i = length xs" and p: "pout \<noteq> OutOfFuel"
    by auto
  from assms(4) polling(11) have "answers env (server w1) xs sv" by simp
  from pollExport_complete [OF this assms(5) p assms(9), of 0]
  have "pollExport fuel env a db \<lparr>noSchema = ns, noData = nd, tables = tabs\<rparr> None 0 w1 =
          (pout, w1\<lparr>server := sv, trace := trace w1 @ xs,
                     console := console w1 @ snd (report (progress_lines xs) 0)\<rparr>)" .
  with polling(7) same
  have pout: "pout' = pout"
    and w2: "w2 = w1\<lparr>server := sv, trace := trace w1 @ xs,
                      console := console w1 @ snd (report (progress_lines xs) 0)\<rparr>"
    by simp_all
  have s: "server w' = sv"
    using polling(12) by (simp add: w2)
  have t: "trace w' = trace w @ xs"
    using polling(8,3) by (simp add: w2)
  have "out \<noteq> OutOfFuel"
  proof (cases pout')
    case (Return res)
    with polling(10) obtain art :: artifact where
      c: "case fetch env (signedUrl art) of
            Inl e \<Rightarrow> out = Throw e \<and> files w' = files w2
          | Inr contents \<Rightarrow>
              (case writeFile_fault env output of
                 Some e \<Rightarrow> out = Throw e
               | None \<Rightarrow> out = Return () \<and>
                   files w' = (files w2)(output \<mapsto>
                     (case stream contents of Some s \<Rightarrow> s | None \<Rightarrow> '''')))"
      by auto
    then show ?thesis
      by (cases "fetch env (signedUrl art)"; cases "writeFile_fault env output") auto
  next
    case (Throw e)
    with polling(10) show ?thesis by simp
  next
    case OutOfFuel
    with p pout show ?thesis by simp
  qed
  with l s t show ?thesis by (simp add: exchanges_since_def)
qed

text \<open>
  The example export, allowed eight requests where three are needed: the third response
  is \<^verbatim>\<open>complete\<close>, the remote side still holds the response that comes next in its script,
  and the requests made are the three of the example.
\<close>

theorem terminal_once_witness:
  "answers (example_env None) (example_completing @ [Failure ''never asked'']) example_exchanges
     [Failure ''never asked''] \<and>
   snd (example_exchanges ! 2) =
     Inr (Success \<lparr>at_bookmark = ''b3'', messages = [], errors = [],
                   status = Complete \<lparr>filename = ''dump.sql'', signedUrl = ''https://x/y''\<rparr>\<rparr>) \<and>
   Suc 2 = length example_exchanges \<and>
   server (snd (exportRemotely (Suc (Suc (Suc 0)) + 5) (example_env None) () ''db'' ''out.sql''
     [''users''] (Some True) None
     (example_world (example_completing @ [Failure ''never asked''])))) =
     [Failure ''never asked''] \<and>
   trace (snd (exportRemotely (Suc (Suc (Suc 0)) + 5) (example_env None) () ''db'' ''out.sql''
     [''users''] (Some True) None
     (example_world (example_completing @ [Failure ''never asked''])))) =
     example_exchanges"
proof -
  let ?w = "example_world (example_completing @ [Failure ''never asked''])"
  let ?X = "exportRemotely (Suc (Suc (Suc 0)) + 5) (example_env None) () ''db'' ''out.sql''
              [''users''] (Some True) None ?w"
  let ?art = "\<lparr>filename = ''dump.sql'', signedUrl = ''https://x/y''\<rparr>"
  let ?r = "\<lparr>at_bookmark = ''b3'', messages = [], errors = [], status = Complete ?art\<rparr>"
  have run: "?X = (fst ?X, snd ?X)"
    by simp
  have auth: "requireAuth (example_env None) () = Inr ''account-1''"
    by (simp add: example_env_def)
  have db: "getDatabaseByNameOrBinding (example_env None) () ''account-1'' ''db'' =
              Inr \<lparr>uuid = ''db-uuid''\<rparr>"
    by (simp add: example_env_def)
  have ans: "answers (example_env None) (server ?w) example_exchanges [Failure ''never asked'']"
    by (simp add: example_exchanges_def example_request_def example_defs)
  have fol: "follows ''account-1'' \<lparr>uuid = ''db-uuid''\<rparr>
               \<lparr>noSchema = Some True, noData = None, tables = [''users'']\<rparr> None
               example_exchanges (Return ?r)"
    by (simp add: example_exchanges_def example_request_def example_completing_def)
  have i: "2 < length example_exchanges"
    by (simp add: example_exchanges_def)
  have r: "snd (example_exchanges ! 2) = Inr (Success ?r)"
    by (simp add: example_exchanges_def example_completing_def)
  have s: "status ?r = Errored \<or> (\<exists>art. status ?r = Complete art)"
    by simp
  have len: "length example_exchanges \<le> Suc (Suc (Suc 0)) + 5"
    by (simp add: example_exchanges_def)
  have sw: "server ?w = example_completing @ [Failure ''never asked'']" "trace ?w = []"
    by (simp_all add: example_world_def)
  from terminal_once [OF run auth db ans fol i r s len] ans r sw
  show ?thesis by simp
qed

subsection \<open>C3: monotonic renumbering\<close>



subsection \<open>C4: envelope failure\<close>

text \<open>
  C4. When a response has \<^verbatim>\<open>success: false\<close>, the driver fails at once with an error whose
  message is the \<^verbatim>\<open>error\<close> string of the envelope, and issues no further status request.
  Let \<open>xs\<close> be what the remote side answers, from its state at the start, to the requests of
  the driver one after the other, and let the response at position \<open>i\<close> have
  \<^verbatim>\<open>success: false\<close>, at the first poll or at any later one. Then that response is the last
  of \<open>xs\<close>, and however many more requests \<^verbatim>\<open>pollExport\<close> is allowed, it throws that error,
  leaves the remote side in the state right after that response, has made exactly the
  requests of \<open>xs\<close>, and has logged only the progress lines of the responses before.
\<close>

theorem envelope_failure:
  assumes "answers env (server w) xs sv"
      and "follows a db opts b xs out"
      and "i < length xs"
      and "snd (xs ! i) = Inr (Failure msg)"
      and "length xs \<le> fuel"
  shows "Suc i = length xs \<and>
         pollExport fuel env a db opts b n w =
           (Throw (Error msg),
            w\<lparr>server := sv, trace := trace w @ xs,
              console := console w @ snd (report (progress_lines xs) n)\<rparr>)"
proof -
  from follows_terminal [OF assms(2,3)] assms(4)
  have l: "Suc i = length xs" and o: "out = Throw (Error msg)"
    by simp_all
  from o have "out \<noteq> OutOfFuel" by simp
  from pollExport_complete [OF assms(1,2) this assms(5), of n] l o show ?thesis
    by simp
qed

text \<open>
  A request rejected at the second poll, after an \<^verbatim>\<open>active\<close> response: \<^verbatim>\<open>pollExport\<close>
  throws \<^verbatim>\<open>rate limited\<close>, the remote side still holds the response that comes next in its
  script, two requests were made, and the one progress line of the first response was logged.
\<close>

theorem envelope_failure_witness:
  "answers (example_env None) example_rate_limited example_rate_limited_exchanges
     [Failure ''never asked''] \<and>
   snd (example_rate_limited_exchanges ! 1) = Inr (Failure ''rate limited'') \<and>
   Suc 1 = length example_rate_limited_exchanges \<and>
   pollExport (Suc (Suc (Suc 0))) (example_env None) ''account-1'' \<lparr>uuid = ''db-uuid''\<rparr>
     \<lparr>noSchema = Some True, noData = None, tables = [''users'']\<rparr> None 0
     (example_world example_rate_limited) =
   (Throw (Error ''rate limited''),
    (example_world example_rate_limited)
      \<lparr>server := [Failure ''never asked''], trace := example_rate_limited_exchanges,
        console := [cyclone @ '' Uploaded part 1'']\<rparr>)"
proof -
  let ?w = "example_world example_rate_limited"
  have ans: "answers (example_env None) (server ?w) example_rate_limited_exchanges
               [Failure ''never asked'']"
    by (simp add: example_rate_limited_exchanges_def example_request_def example_defs)
  have fol: "follows ''account-1'' \<lparr>uuid = ''db-uuid''\<rparr>
               \<lparr>noSchema = Some True, noData = None, tables = [''users'']\<rparr> None
               example_rate_limited_exchanges (Throw (Error ''rate limited''))"
    by (simp add: example_rate_limited_exchanges_def example_request_def example_rate_limited_def)
  have i: "1 < length example_rate_limited_exchanges"
    by (simp add: example_rate_limited_exchanges_def)
  have r: "snd (example_rate_limited_exchanges ! 1) = Inr (Failure ''rate limited'')"
    by (simp add: example_rate_limited_exchanges_def example_rate_limited_def)
  have len: "length example_rate_limited_exchanges \<le> Suc (Suc (Suc 0))"
    by (simp add: example_rate_limited_exchanges_def)
  have sw: "server ?w = example_rate_limited" "trace ?w = []" "console ?w = []"
    by (simp_all add: example_world_def)
  have lg: "snd (report (progress_lines example_rate_limited_exchanges) 0) =
              [cyclone @ '' Uploaded part 1'']"
    by (simp add: example_rate_limited_exchanges_def example_rate_limited_def progress_lines_def
                  startsWith_def toString.simps digit_def)
  let ?P = "pollExport (Suc (Suc (Suc 0))) (example_env None) ''account-1'' \<lparr>uuid = ''db-uuid''\<rparr>
              \<lparr>noSchema = Some True, noData = None, tables = [''users'']\<rparr> None 0 ?w"
  have eq: "?w\<lparr>server := [Failure ''never asked''], trace := trace ?w @ example_rate_limited_exchanges,
               console := console ?w @
                 snd (report (progress_lines example_rate_limited_exchanges) 0)\<rparr> =
            ?w\<lparr>server := [Failure ''never asked''], trace := example_rate_limited_exchanges,
               console := [cyclone @ '' Uploaded part 1'']\<rparr>"
    by (simp only: sw lg append_Nil)
  from envelope_failure [OF ans fol i r len, of 0]
  have l: "Suc 1 = length example_rate_limited_exchanges"
    and c: "?P = (Throw (Error ''rate limited''),
                 ?w\<lparr>server := [Failure ''never asked''], trace := trace ?w @ example_rate_limited_exchanges,
                    console := console ?w @
                      snd (report (progress_lines example_rate_limited_exchanges) 0)\<rparr>)"
    by blast+
  from c have c': "?P = (Throw (Error ''rate limited''),
                 ?w\<lparr>server := [Failure ''never asked''], trace := example_rate_limited_exchanges,
                    console := [cyclone @ '' Uploaded part 1'']\<rparr>)"
    by (simp only: eq)
  from ans have ans': "answers (example_env None) example_rate_limited
                         example_rate_limited_exchanges [Failure ''never asked'']"
    by (simp only: sw)
  from ans' r l c' show ?thesis by blast
qed

subsection \<open>C5: error surfacing\<close>



subsection \<open>C6: completion and retrieval\<close>



subsection \<open>C7: request invariance\<close>



subsection \<open>C8: verbatim emission\<close>



subsection \<open>C9: only a completed job is returned\<close>

text \<open>
  C9. Whatever \<^verbatim>\<open>pollExport\<close> returns has status \<^verbatim>\<open>complete\<close>: an \<^verbatim>\<open>active\<close> response
  makes it poll again and an \<^verbatim>\<open>error\<close> response makes it throw. The guard of
  \<^verbatim>\<open>exportRemotely\<close> that throws \<^verbatim>\<open>Error: D1 reset before export completed!\<close> fires
  when the status of the returned response is \<^verbatim>\<open>active\<close> or \<^verbatim>\<open>error\<close>, which it never is.
\<close>

theorem only_complete_is_returned:
  assumes "pollExport fuel env a db opts b n w = (Return r, w')"
  shows "(\<exists>art. status r = Complete art) \<and> status r \<noteq> Active \<and> status r \<noteq> Errored"
  using pollExport_Return [OF assms] by auto

theorem only_complete_is_returned_witness:
  "fst (example_poll example_completing) =
     Return \<lparr>at_bookmark = ''b3'', messages = [], errors = [],
              status = Complete \<lparr>filename = ''dump.sql'', signedUrl = ''https://x/y''\<rparr>\<rparr> \<and>
   (\<exists>art. status \<lparr>at_bookmark = ''b3'', messages = [], errors = [],
              status = Complete \<lparr>filename = ''dump.sql'', signedUrl = ''https://x/y''\<rparr>\<rparr> =
           Complete art)"
proof -
  let ?w = "example_world example_completing"
  let ?X = "example_poll example_completing"
  let ?r = "\<lparr>at_bookmark = ''b3'', messages = [], errors = [],
             status = Complete \<lparr>filename = ''dump.sql'', signedUrl = ''https://x/y''\<rparr>\<rparr>"
  have out: "fst ?X = Return ?r"
    by (simp add: example_defs)
  have "pollExport (Suc (Suc (Suc 0))) (example_env None) ''account-1'' \<lparr>uuid = ''db-uuid''\<rparr>
               \<lparr>noSchema = Some True, noData = None, tables = [''users'']\<rparr> None 0 ?w =
             (fst ?X, snd ?X)"
    by (simp add: example_poll_def)
  then have run: "pollExport (Suc (Suc (Suc 0))) (example_env None) ''account-1'' \<lparr>uuid = ''db-uuid''\<rparr>
               \<lparr>noSchema = Some True, noData = None, tables = [''users'']\<rparr> None 0 ?w =
             (Return ?r, snd ?X)"
    by (simp only: out)
  from only_complete_is_returned [OF run] out show ?thesis by blast
qed

subsection \<open>C10: a download without a body\<close>



end
